theory Spec2Isabelle
  imports Complex_Main
begin

section \<open>The stream supervisor of main.py\<close>

text \<open>
  The program is a multi-threaded Python service. One \<open>StreamManager\<close> object is shared
  by the request handlers and by the background thread that runs \<open>_stream_loop\<close>.
  The embedding is a transition system: the state holds the fields of the manager, the
  part of the outside world the code looks at (video files, the queue file, the settings
  file, the external processes), the loop threads with their program points, and the
  sequence of observable events (what is printed, the sleeps, the calls on process
  handles). Every method of the manager is a function on this state. The background loop
  is cut into the steps between which another thread can run; what the outside world
  answers (does Popen succeed, does the process exit within the timeout, what the clock
  reads) is an argument of the step.
\<close>

subsection \<open>Values and exceptions\<close>

text \<open>
  Settings come from \<open>json.load\<close> and are a dictionary of JSON values. The model has the
  null, integer and string values; they are enough to reach every exception of
  \<open>_stream_video\<close>.
\<close>

datatype jval = JNull | JInt int | JStr string

type_synonym settings = "string \<rightharpoonup> jval"

text \<open>The Python exceptions that the modelled code can raise.\<close>

datatype exn =
    Exception string
  | KeyError string
  | TypeError
  | OSError
  | AttributeError
  | TimeoutExpired

text \<open>
  \<open>HTTPException(status_code, detail)\<close>. Where the source appends the text of a caught
  exception to the detail, the model keeps the fixed prefix.
\<close>

datatype http_exception = HTTPException nat string

type_synonym handle = nat

datatype pstate = Running | Exited int

text \<open>
  What the process prints, when it sleeps, and what it calls on a process handle.
  \<open>Thread_exception\<close> is the traceback that Python prints when an exception ends a
  thread.
\<close>

datatype event =
    Print_error_saving_queue
  | Print_error_loading_settings
  | Print_error_saving_settings
  | Print_queue_empty
  | Print_not_found string
  | Print_error_streaming string exn
  | Print_starting string
  | Print_ffmpeg_error
  | Print_exception_during_streaming exn
  | Print_error_stopping exn
  | Print_error_skipping exn
  | Thread_exception exn
  | Sleep nat
  | Call_popen "jval list"
  | Call_terminate handle
  | Call_wait handle nat
  | Call_kill handle

text \<open>
  The program points of \<open>_stream_loop\<close> (with \<open>_stream_video\<close> inlined). A thread
  ends at \<open>L_done\<close>, when the function returns, or at \<open>L_crashed\<close>, when an exception
  leaves it.
\<close>

datatype pc =
    L_while
  | L_next
  | L_exists string
  | L_stream string
  | L_popen "jval list"
  | L_call_wait
  | L_blocked handle
  | L_stderr
  | L_read handle
  | L_sleep
  | L_cleanup
  | L_done
  | L_crashed exn

record loop_thread =
  pc :: pc
  thread_settings :: settings

datatype file_state = Missing | Corrupt | Valid settings

subsection \<open>The state\<close>

text \<open>
  The first seven fields are the fields of \<open>StreamManager\<close> (\<open>stream_thread\<close> is the
  index of the last thread started). Times are the readings of \<open>time.time()\<close>, taken as
  real numbers. The other fields are the world: \<open>present\<close> lists the identifiers
  \<open>v\<close> for which \<open>(VIDEOS_DIR / v).exists()\<close> is true; \<open>stat_raises\<close> lists those
  for which it raises OSError (\<open>exists\<close> returns false only when the error of \<open>stat\<close>
  is one of ENOENT, ENOTDIR, EBADF, ELOOP; a name of more than 255 bytes or a directory
  that may not be searched gives another error); for every other identifier it is false;
  \<open>path_str\<close> and \<open>path_name\<close> are
  pathlib's \<open>str(VIDEOS_DIR / v)\<close> and \<open>(VIDEOS_DIR / v).name\<close>, kept as parameters;
  \<open>disk_ok\<close> says whether opening a file for writing succeeds.
\<close>

record sys =
  process :: "handle option"
  is_active :: bool
  current_video_id :: "string option"
  start_time :: "real option"
  queue :: "string list"
  should_stop :: bool
  stream_thread :: "nat option"
  present :: "string list"
  stat_raises :: "string list"
  path_str :: "string \<Rightarrow> string"
  path_name :: "string \<Rightarrow> string"
  queue_file :: "string list option"
  settings_file :: file_state
  disk_ok :: bool
  procs :: "pstate list"
  threads :: "loop_thread list"
  events :: "event list"

definition emit :: "event \<Rightarrow> sys \<Rightarrow> sys" where
  "emit e s = s\<lparr>events := events s @ [e]\<rparr>"

text \<open>Handles are made by Popen only, so a handle always has an entry in \<open>procs\<close>;
  \<open>proc_state\<close> is total all the same.\<close>

definition proc_state :: "sys \<Rightarrow> handle \<Rightarrow> pstate option" where
  "proc_state s h = (if h < length (procs s) then Some (procs s ! h) else None)"

subsection \<open>Queue store\<close>

definition save_queue :: "sys \<Rightarrow> sys" where
  "save_queue s =
     (if disk_ok s then s\<lparr>queue_file := Some (queue s)\<rparr>
      else emit Print_error_saving_queue s)"

definition add_to_queue :: "string \<Rightarrow> sys \<Rightarrow> sys" where
  "add_to_queue video_id s =
     (if video_id \<notin> set (queue s)
      then save_queue (s\<lparr>queue := queue s @ [video_id]\<rparr>)
      else s)"

definition remove_from_queue :: "string \<Rightarrow> sys \<Rightarrow> sys" where
  "remove_from_queue video_id s =
     (if video_id \<in> set (queue s)
      then save_queue (s\<lparr>queue := remove1 video_id (queue s)\<rparr>)
      else s)"

definition get_next_video :: "sys \<Rightarrow> string option \<times> sys" where
  "get_next_video s =
     (case queue s of
        [] \<Rightarrow> (None, s)
      | video_id # rest \<Rightarrow> (Some video_id, save_queue (s\<lparr>queue := rest\<rparr>)))"

subsection \<open>Status\<close>

record StreamStatus =
  isActive :: bool
  currentVideoId :: "string option"
  uptime :: int
  status :: string
  queue_copy :: "string list"
  viewerCount :: int

text \<open>Python's \<open>int(x)\<close> on a float truncates towards zero.\<close>

definition py_int :: "real \<Rightarrow> int" where
  "py_int x = (if 0 \<le> x then \<lfloor>x\<rfloor> else \<lceil>x\<rceil>)"

text \<open>\<open>if self.start_time\<close> is false for \<open>None\<close> and for \<open>0.0\<close>.\<close>

definition get_status :: "real \<Rightarrow> sys \<Rightarrow> StreamStatus" where
  "get_status now s =
     \<lparr> isActive = is_active s,
       currentVideoId = current_video_id s,
       uptime = (case start_time s of
                   None \<Rightarrow> 0
                 | Some t \<Rightarrow> if t = 0 then 0 else py_int (now - t)),
       status = (if is_active s then ''streaming'' else ''idle''),
       queue_copy = queue s,
       viewerCount = 0 \<rparr>"

subsection \<open>Settings and the command line\<close>

definition DEFAULT_SETTINGS :: settings where
  "DEFAULT_SETTINGS =
     [''rtmp_url'' \<mapsto> JStr ''rtmp://example.com/live'',
      ''stream_key'' \<mapsto> JStr ''your_stream_key'',
      ''resolution'' \<mapsto> JStr ''1920x1080'',
      ''bitrate'' \<mapsto> JInt 2500,
      ''fps'' \<mapsto> JInt 30]"

definition save_settings :: "settings \<Rightarrow> sys \<Rightarrow> http_exception option \<times> sys" where
  "save_settings st s =
     (if disk_ok s then (None, s\<lparr>settings_file := Valid st\<rparr>)
      else (Some (HTTPException 500 ''Failed to save settings''),
            emit Print_error_saving_settings s))"

definition load_default :: "sys \<Rightarrow> (http_exception + settings) \<times> sys" where
  "load_default s =
     (case save_settings DEFAULT_SETTINGS s of
        (None, s') \<Rightarrow> (Inr DEFAULT_SETTINGS, s')
      | (Some e, s') \<Rightarrow> (Inl e, s'))"

definition load_settings :: "sys \<Rightarrow> (http_exception + settings) \<times> sys" where
  "load_settings s =
     (case settings_file s of
        Valid st \<Rightarrow> (Inr st, s)
      | Corrupt \<Rightarrow> load_default (emit Print_error_loading_settings s)
      | Missing \<Rightarrow> load_default s)"

fun show_nat :: "nat \<Rightarrow> string" where
  "show_nat n =
     (if n < 10 then [char_of (48 + n)]
      else show_nat (n div 10) @ [char_of (48 + n mod 10)])"

definition show_int :: "int \<Rightarrow> string" where
  "show_int i = (if i < 0 then CHR ''-'' # show_nat (nat (- i)) else show_nat (nat i))"

text \<open>\<open>str(x)\<close> and \<open>f'{x}'\<close> of a settings value, and \<open>x * 2\<close>.\<close>

definition py_str :: "jval \<Rightarrow> string" where
  "py_str x = (case x of JNull \<Rightarrow> ''None'' | JInt i \<Rightarrow> show_int i | JStr t \<Rightarrow> t)"

definition py_times2 :: "jval \<Rightarrow> exn + jval" where
  "py_times2 x =
     (case x of
        JNull \<Rightarrow> Inl TypeError
      | JInt i \<Rightarrow> Inr (JInt (i * 2))
      | JStr t \<Rightarrow> Inr (JStr (t @ t)))"

text \<open>
  The first lines of \<open>_stream_video\<close>, up to the list \<open>cmd\<close>; \<open>video_path\<close> is
  \<open>str(video_path)\<close>. The value of \<open>resolution\<close> goes into the list as it is.
\<close>

definition lookup :: "settings \<Rightarrow> string \<Rightarrow> exn + jval" where
  "lookup st k = (case st k of None \<Rightarrow> Inl (KeyError k) | Some v \<Rightarrow> Inr v)"

definition bind_exn :: "exn + 'a \<Rightarrow> ('a \<Rightarrow> exn + 'b) \<Rightarrow> exn + 'b" where
  "bind_exn x f = (case x of Inl e \<Rightarrow> Inl e | Inr v \<Rightarrow> f v)"

definition build_cmd :: "settings \<Rightarrow> string \<Rightarrow> exn + jval list" where
  "build_cmd st video_path =
     bind_exn (lookup st ''rtmp_url'') (\<lambda>rtmp_url.
     bind_exn (lookup st ''stream_key'') (\<lambda>stream_key.
     bind_exn (lookup st ''bitrate'') (\<lambda>bitrate.
     bind_exn (lookup st ''resolution'') (\<lambda>resolution.
     bind_exn (lookup st ''fps'') (\<lambda>fps.
     bind_exn (py_times2 bitrate) (\<lambda>bitrate2.
        Inr [JStr ''ffmpeg'',
             JStr ''-re'',
             JStr ''-i'', JStr video_path,
             JStr ''-c:v'', JStr ''libx264'',
             JStr ''-preset'', JStr ''veryfast'',
             JStr ''-b:v'', JStr (py_str bitrate @ ''k''),
             JStr ''-maxrate'', JStr (py_str bitrate @ ''k''),
             JStr ''-bufsize'', JStr (py_str bitrate2 @ ''k''),
             JStr ''-pix_fmt'', JStr ''yuv420p'',
             JStr ''-g'', JStr ''50'',
             JStr ''-s'', resolution,
             JStr ''-r'', JStr (py_str fps),
             JStr ''-c:a'', JStr ''aac'',
             JStr ''-b:a'', JStr ''128k'',
             JStr ''-ar'', JStr ''44100'',
             JStr ''-f'', JStr ''flv'',
             JStr (py_str rtmp_url @ ''/'' @ py_str stream_key)]))))))"

subsection \<open>Process supervisor\<close>

text \<open>
  The answers of the outside world. Popen starts the process or raises; a running
  process that is sent the termination signal exits within the five units that
  \<open>wait(timeout=5)\<close> allows, or does not, or the signal cannot be sent; \<open>kill()\<close>
  works or raises.
\<close>

datatype popen_resp = Spawn_ok | Spawn_fails
datatype term_resp = Term_raises | Exits_within int | Times_out
datatype kill_resp = Kill_ok | Kill_raises

fun is_str :: "jval \<Rightarrow> bool" where
  "is_str (JStr t) = True"
| "is_str x = False"

text \<open>\<open>subprocess.Popen(cmd, ...)\<close>: an argument that is not a string is a TypeError.\<close>

definition popen :: "popen_resp \<Rightarrow> jval list \<Rightarrow> sys \<Rightarrow> (exn + handle) \<times> sys" where
  "popen r cmd s =
     (let s1 = emit (Call_popen cmd) s in
      if \<not> list_all is_str cmd then (Inl TypeError, s1)
      else case r of
             Spawn_fails \<Rightarrow> (Inl OSError, s1)
           | Spawn_ok \<Rightarrow> (Inr (length (procs s1)), s1\<lparr>procs := procs s1 @ [Running]\<rparr>))"

text \<open>
  \<open>self.process.terminate(); self.process.wait(timeout=5)\<close>, the body of the
  \<open>try\<close> in \<open>stop_stream\<close> and \<open>skip_current\<close>, on the handle \<open>h\<close>. The result is
  the exception raised, if any. On a process that has exited, \<open>terminate\<close> does nothing and
  \<open>wait\<close> returns at once.
\<close>

definition terminate_wait :: "term_resp \<Rightarrow> handle \<Rightarrow> sys \<Rightarrow> exn option \<times> sys" where
  "terminate_wait r h s =
     (case proc_state s h of
        Some Running \<Rightarrow>
          (case r of
             Term_raises \<Rightarrow> (Some OSError, emit (Call_terminate h) s)
           | Exits_within c \<Rightarrow>
               (None, emit (Call_wait h 5)
                        (emit (Call_terminate h) (s\<lparr>procs := (procs s)[h := Exited c]\<rparr>)))
           | Times_out \<Rightarrow>
               (Some TimeoutExpired, emit (Call_wait h 5) (emit (Call_terminate h) s)))
      | _ \<Rightarrow> (None, emit (Call_wait h 5) (emit (Call_terminate h) s)))"

text \<open>\<open>self.process.kill()\<close>; a process that has exited is left alone.\<close>

definition kill :: "kill_resp \<Rightarrow> handle \<Rightarrow> sys \<Rightarrow> exn option \<times> sys" where
  "kill k h s =
     (case proc_state s h of
        Some Running \<Rightarrow>
          (case k of
             Kill_raises \<Rightarrow> (Some OSError, emit (Call_kill h) s)
           | Kill_ok \<Rightarrow> (None, emit (Call_kill h) (s\<lparr>procs := (procs s)[h := Exited (- 9)]\<rparr>)))
      | _ \<Rightarrow> (None, emit (Call_kill h) s))"

subsection \<open>Start, stop and skip\<close>

definition reset_session :: "sys \<Rightarrow> sys" where
  "reset_session s = s\<lparr>is_active := False, current_video_id := None, start_time := None\<rparr>"

text \<open>\<open>StreamManager.start_stream\<close>: the new thread has not run yet when it returns.\<close>

definition start_stream :: "settings \<Rightarrow> sys \<Rightarrow> exn option \<times> sys" where
  "start_stream st s =
     (if is_active s then (Some (Exception ''Stream is already active''), s)
      else (None, s\<lparr>should_stop := False,
                    stream_thread := Some (length (threads s)),
                    threads := threads s @ [\<lparr>pc = L_while, thread_settings = st\<rparr>]\<rparr>))"

text \<open>
  \<open>StreamManager.stop_stream\<close>. An exception of \<open>kill()\<close> is raised inside the handler
  of \<open>TimeoutExpired\<close>, where the clause \<open>except Exception\<close> of the same \<open>try\<close> does
  not apply: after the \<open>finally\<close> it leaves the method, before the session is reset.
\<close>

definition stop_stream :: "term_resp \<Rightarrow> kill_resp \<Rightarrow> sys \<Rightarrow> exn option \<times> sys" where
  "stop_stream tr kr s0 =
     (let s = s0\<lparr>should_stop := True\<rparr> in
      case process s of
        None \<Rightarrow> (None, reset_session s)
      | Some h \<Rightarrow>
          (case terminate_wait tr h s of
             (None, s1) \<Rightarrow> (None, reset_session (s1\<lparr>process := None\<rparr>))
           | (Some TimeoutExpired, s1) \<Rightarrow>
               (case kill kr h s1 of
                  (None, s2) \<Rightarrow> (None, reset_session (s2\<lparr>process := None\<rparr>))
                | (Some e, s2) \<Rightarrow> (Some e, s2\<lparr>process := None\<rparr>))
           | (Some e, s1) \<Rightarrow>
               (None, reset_session ((emit (Print_error_stopping e) s1)\<lparr>process := None\<rparr>))))"

definition skip_current :: "term_resp \<Rightarrow> kill_resp \<Rightarrow> sys \<Rightarrow> exn option \<times> sys" where
  "skip_current tr kr s =
     (case process s of
        None \<Rightarrow> (None, s)
      | Some h \<Rightarrow>
          (case terminate_wait tr h s of
             (None, s1) \<Rightarrow> (None, s1)
           | (Some TimeoutExpired, s1) \<Rightarrow> kill kr h s1
           | (Some e, s1) \<Rightarrow> (None, emit (Print_error_skipping e) s1)))"

text \<open>The request handlers \<open>/stream/start\<close>, \<open>/stream/stop\<close> and \<open>/stream/skip\<close>.\<close>

definition start_stream_endpoint :: "sys \<Rightarrow> (http_exception + string) \<times> sys" where
  "start_stream_endpoint s =
     (if is_active s then (Inl (HTTPException 400 ''Stream is already active''), s)
      else if queue s = []
      then (Inl (HTTPException 400 ''Queue is empty. Add videos to queue first.''), s)
      else case load_settings s of
             (Inl e, s1) \<Rightarrow> (Inl e, s1)
           | (Inr st, s1) \<Rightarrow>
               (case start_stream st s1 of
                  (None, s2) \<Rightarrow> (Inr ''Stream started successfully'', s2)
                | (Some e, s2) \<Rightarrow> (Inl (HTTPException 500 ''Error starting stream''), s2)))"

definition stop_stream_endpoint ::
  "term_resp \<Rightarrow> kill_resp \<Rightarrow> sys \<Rightarrow> (http_exception + string) \<times> sys" where
  "stop_stream_endpoint tr kr s =
     (if \<not> is_active s then (Inl (HTTPException 400 ''No active stream to stop''), s)
      else case stop_stream tr kr s of
             (None, s1) \<Rightarrow> (Inr ''Stream stopped successfully'', s1)
           | (Some e, s1) \<Rightarrow> (Inl (HTTPException 500 ''Error stopping stream''), s1))"

definition skip_video ::
  "term_resp \<Rightarrow> kill_resp \<Rightarrow> sys \<Rightarrow> (http_exception + string) \<times> sys" where
  "skip_video tr kr s =
     (if \<not> is_active s then (Inl (HTTPException 400 ''No active stream''), s)
      else case skip_current tr kr s of
             (None, s1) \<Rightarrow> (Inr ''Skipped to next video'', s1)
           | (Some e, s1) \<Rightarrow> (Inl (HTTPException 500 ''Error skipping video''), s1))"

subsection \<open>The stream loop\<close>

text \<open>The \<open>finally\<close> clause of \<open>_stream_video\<close>.\<close>

definition finally_stream :: "sys \<Rightarrow> sys" where
  "finally_stream s = s\<lparr>process := None, current_video_id := None\<rparr>"

text \<open>
  One step of a thread that runs \<open>_stream_loop(settings)\<close>, from the program point
  \<open>p\<close>. \<open>r\<close> is what Popen answers and \<open>now\<close> what the clock reads, should the
  step ask.

  \<^item> \<open>L_while\<close>: the test \<open>while not self.should_stop\<close>.
  \<^item> \<open>L_next\<close>: \<open>get_next_video()\<close> and the test \<open>if not video_id\<close>, which holds for
    \<open>None\<close> and for the empty string.
  \<^item> \<open>L_exists\<close>: \<open>video_path.exists()\<close>. The call is outside every \<open>try\<close>: when
    it raises, the exception leaves \<open>_stream_loop\<close> and ends the thread, and the locked
    block after the loop is not run.
  \<^item> \<open>L_stream\<close>: the call of \<open>_stream_video\<close> up to the end of its first locked
    block. An exception here (a key missing from the settings, \<open>bitrate * 2\<close> on
    \<open>None\<close>) is raised before the \<open>try\<close> of \<open>_stream_video\<close> and reaches the handler
    of the loop, which prints and sleeps.
  \<^item> \<open>L_popen\<close>, \<open>L_call_wait\<close>, \<open>L_blocked\<close>, \<open>L_stderr\<close>, \<open>L_read\<close>: the
    \<open>try\<close> of \<open>_stream_video\<close> (Popen; the call of \<open>wait\<close>; blocked in \<open>wait\<close> and,
    on return, the test of the return code, which is \<open>None\<close> and so not 0 for a process
    that still runs; the call of \<open>stderr.read\<close>; blocked in \<open>read\<close> and then the
    print). Its handler prints every exception and raises none, so the loop
    goes on to its next round without sleeping. \<open>self.process\<close> is read again at each
    use; \<open>stop_stream\<close> may have set it to \<open>None\<close> in between.
  \<^item> \<open>L_sleep\<close>: \<open>time.sleep(1)\<close>.
  \<^item> \<open>L_cleanup\<close>: the locked block after the loop.
\<close>

fun thread_step :: "popen_resp \<Rightarrow> real \<Rightarrow> settings \<Rightarrow> pc \<Rightarrow> sys \<Rightarrow> pc \<times> sys" where
  "thread_step r now st L_while s =
     (if should_stop s then (L_cleanup, s) else (L_next, s))"
| "thread_step r now st L_next s =
     (case get_next_video s of
        (None, s1) \<Rightarrow> (L_cleanup, emit Print_queue_empty s1)
      | (Some video_id, s1) \<Rightarrow>
          if video_id = [] then (L_cleanup, emit Print_queue_empty s1)
          else (L_exists video_id, s1))"
| "thread_step r now st (L_exists video_id) s =
     (if video_id \<in> set (present s) then (L_stream video_id, s)
      else if video_id \<in> set (stat_raises s)
      then (L_crashed OSError, emit (Thread_exception OSError) s)
      else (L_while, emit (Print_not_found video_id) s))"
| "thread_step r now st (L_stream video_id) s =
     (case build_cmd st (path_str s video_id) of
        Inl e \<Rightarrow> (L_sleep, emit (Print_error_streaming video_id e) s)
      | Inr cmd \<Rightarrow>
          (L_popen cmd,
           (emit (Print_starting (path_name s video_id)) s)
             \<lparr>current_video_id := Some (path_name s video_id),
              is_active := True,
              start_time := (case start_time s of None \<Rightarrow> Some now | Some t \<Rightarrow> Some t)\<rparr>))"
| "thread_step r now st (L_popen cmd) s =
     (case popen r cmd s of
        (Inl e, s1) \<Rightarrow> (L_while, finally_stream (emit (Print_exception_during_streaming e) s1))
      | (Inr h, s1) \<Rightarrow> (L_call_wait, s1\<lparr>process := Some h\<rparr>))"
| "thread_step r now st L_call_wait s =
     (case process s of
        None \<Rightarrow>
          (L_while, finally_stream (emit (Print_exception_during_streaming AttributeError) s))
      | Some h \<Rightarrow> (L_blocked h, s))"
| "thread_step r now st (L_blocked h) s =
     (if proc_state s h = Some Running then (L_blocked h, s)
      else case process s of
             None \<Rightarrow>
               (L_while,
                finally_stream (emit (Print_exception_during_streaming AttributeError) s))
           | Some h' \<Rightarrow>
               if proc_state s h' = Some (Exited 0) \<or> should_stop s
               then (L_while, finally_stream s)
               else (L_stderr, s))"
| "thread_step r now st L_stderr s =
     (case process s of
        None \<Rightarrow>
          (L_while, finally_stream (emit (Print_exception_during_streaming AttributeError) s))
      | Some h' \<Rightarrow> (L_read h', s))"
| "thread_step r now st (L_read h') s =
     (if proc_state s h' = Some Running then (L_read h', s)
      else (L_while, finally_stream (emit Print_ffmpeg_error s)))"
| "thread_step r now st L_sleep s = (L_while, emit (Sleep 1) s)"
| "thread_step r now st L_cleanup s = (L_done, reset_session s)"
| "thread_step r now st L_done s = (L_done, s)"
| "thread_step r now st (L_crashed e) s = (L_crashed e, s)"

text \<open>The thread alone, for as many steps as there are answers.\<close>

fun thread_run :: "(popen_resp \<times> real) list \<Rightarrow> settings \<Rightarrow> pc \<Rightarrow> sys \<Rightarrow> pc \<times> sys" where
  "thread_run [] st p s = (p, s)"
| "thread_run ((r, now) # rs) st p s =
     (case thread_step r now st p s of (p', s') \<Rightarrow> thread_run rs st p' s')"

subsection \<open>The whole system\<close>

text \<open>
  What can happen next: a request is served, the loop thread \<open>i\<close> makes a step, a
  running process exits by itself, a file disappears from the videos directory. The
  methods \<open>stop\<close> and \<open>skip\<close> block for up to five units; the model runs each request
  as one step.
\<close>

datatype action =
    Add_to_queue string
  | Remove_from_queue string
  | Start
  | Stop term_resp kill_resp
  | Skip term_resp kill_resp
  | Loop nat popen_resp real
  | Proc_exits handle int
  | Unlink string

definition loop_step :: "nat \<Rightarrow> popen_resp \<Rightarrow> real \<Rightarrow> sys \<Rightarrow> sys" where
  "loop_step i r now s =
     (if i < length (threads s)
      then case thread_step r now (thread_settings (threads s ! i)) (pc (threads s ! i)) s of
             (p', s') \<Rightarrow> s'\<lparr>threads := (threads s')[i := (threads s' ! i)\<lparr>pc := p'\<rparr>]\<rparr>
      else s)"

definition proc_exits :: "handle \<Rightarrow> int \<Rightarrow> sys \<Rightarrow> sys" where
  "proc_exits h c s =
     (if proc_state s h = Some Running then s\<lparr>procs := (procs s)[h := Exited c]\<rparr> else s)"

fun step :: "action \<Rightarrow> sys \<Rightarrow> sys" where
  "step (Add_to_queue v) s = add_to_queue v s"
| "step (Remove_from_queue v) s = remove_from_queue v s"
| "step Start s = snd (start_stream_endpoint s)"
| "step (Stop tr kr) s = snd (stop_stream_endpoint tr kr s)"
| "step (Skip tr kr) s = snd (skip_video tr kr s)"
| "step (Loop i r now) s = loop_step i r now s"
| "step (Proc_exits h c) s = proc_exits h c s"
| "step (Unlink v) s = s\<lparr>present := removeAll v (present s)\<rparr>"

definition run :: "action list \<Rightarrow> sys \<Rightarrow> sys" where
  "run as s = fold step as s"

text \<open>The number of loop threads that have not ended.\<close>

fun ended :: "pc \<Rightarrow> bool" where
  "ended L_done = True"
| "ended (L_crashed e) = True"
| "ended p = False"

definition live_loops :: "sys \<Rightarrow> nat" where
  "live_loops s = length (filter (\<lambda>t. \<not> ended (pc t)) (threads s))"

text \<open>
  \<open>StreamManager.__init__\<close> on a machine with the videos \<open>vs\<close>, the queue file \<open>qf\<close>
  (\<open>None\<close>: absent or unreadable, which leaves the queue empty) and the settings file
  \<open>sf\<close>, where every identifier is a plain file name and the existence test raises
  for none.
\<close>

definition init :: "string list \<Rightarrow> string list option \<Rightarrow> file_state \<Rightarrow> bool \<Rightarrow> sys" where
  "init vs qf sf ok =
     \<lparr> process = None, is_active = False, current_video_id = None, start_time = None,
       queue = (case qf of None \<Rightarrow> [] | Some q \<Rightarrow> q),
       should_stop = False, stream_thread = None,
       present = vs, stat_raises = [], path_str = (\<lambda>v. ''videos/'' @ v), path_name = (\<lambda>v. v),
       queue_file = qf, settings_file = sf, disk_ok = ok,
       procs = [], threads = [], events = [] \<rparr>"

subsection \<open>Sequences of queue operations\<close>

text \<open>
  The calls that change the queue: \<open>add_to_queue\<close>, \<open>remove_from_queue\<close> and the
  \<open>get_next_video\<close> of the loop.
\<close>

datatype qop = Enqueue string | Dequeue string | Pop_front

fun apply_qop :: "qop \<Rightarrow> sys \<Rightarrow> sys" where
  "apply_qop (Enqueue v) s = add_to_queue v s"
| "apply_qop (Dequeue v) s = remove_from_queue v s"
| "apply_qop Pop_front s = snd (get_next_video s)"

definition run_qops :: "qop list \<Rightarrow> sys \<Rightarrow> sys" where
  "run_qops ops s = fold apply_qop ops s"

text \<open>
  The order that the specification gives for a sequence of calls, in its words:
  enqueue is a no-op if the identifier is already present and otherwise appends; dequeue
  removes the identifier if present; pop-front removes the head element, if there is one.
\<close>

fun spec_queue :: "qop list \<Rightarrow> string list \<Rightarrow> string list" where
  "spec_queue [] q = q"
| "spec_queue (Enqueue v # ops) q = spec_queue ops (if v \<in> set q then q else q @ [v])"
| "spec_queue (Dequeue v # ops) q = spec_queue ops (removeAll v q)"
| "spec_queue (Pop_front # ops) q = spec_queue ops (case q of [] \<Rightarrow> [] | x # rest \<Rightarrow> rest)"

subsection \<open>Auxiliary notions and example states\<close>

text \<open>The settings can be read, or the default settings can be written.\<close>

definition settings_loadable :: "sys \<Rightarrow> bool" where
  "settings_loadable s = (case settings_file s of Valid st \<Rightarrow> True | _ \<Rightarrow> disk_ok s)"

text \<open>The clock reads a time after the epoch whenever a loop step asks.\<close>

definition clock_positive :: "action \<Rightarrow> bool" where
  "clock_positive a = (case a of Loop i r now \<Rightarrow> 0 < now | _ \<Rightarrow> True)"

text \<open>An active session has a start time, and start times are positive.\<close>

definition session_inv :: "sys \<Rightarrow> bool" where
  "session_inv s = (case start_time s of None \<Rightarrow> \<not> is_active s | Some t \<Rightarrow> 0 < t)"

text \<open>
  Example states: three videos queued and nothing started; then the first video
  playing, its process running and the loop blocked in \<open>wait\<close>.
\<close>

definition demo_idle :: sys where
  "demo_idle =
     run [Add_to_queue ''a'', Add_to_queue ''b'', Add_to_queue ''c'']
       (init [''a'', ''b'', ''c''] None (Valid DEFAULT_SETTINGS) True)"

definition demo_playing :: sys where
  "demo_playing =
     run [Start, Loop 0 Spawn_ok 1000, Loop 0 Spawn_ok 1000, Loop 0 Spawn_ok 1000,
          Loop 0 Spawn_ok 1000, Loop 0 Spawn_ok 1000, Loop 0 Spawn_ok 1000] demo_idle"

text \<open>
  The first video has ended by itself and the loop has popped the second and is about
  to look for its file.
\<close>

definition demo_between_videos :: sys where
  "demo_between_videos =
     run [Proc_exits 0 0, Loop 0 Spawn_ok 1005, Loop 0 Spawn_ok 1005, Loop 0 Spawn_ok 1005]
       demo_playing"

text \<open>
  A manager started with the queue \<open>a\<close>, \<open>b\<close> loaded from the queue file where the
  file of \<open>a\<close> is gone.
\<close>

definition demo_missing :: sys where
  "demo_missing = init [''b''] (Some [''a'', ''b'']) (Valid DEFAULT_SETTINGS) True"

text \<open>
  An identifier of 256 bytes, longer than a file name may be: \<open>stat\<close> fails with
  ENAMETOOLONG and \<open>exists()\<close> raises. Two managers started with a queue file that
  holds it, at the head of the queue and behind a video that exists.
\<close>

definition long_name :: string where
  "long_name = replicate 256 (CHR ''x'')"

definition demo_long_head :: sys where
  "demo_long_head =
     (init [''b''] (Some [long_name, ''b'']) (Valid DEFAULT_SETTINGS) True)
       \<lparr>stat_raises := [long_name]\<rparr>"

definition demo_long_queued :: sys where
  "demo_long_queued =
     (init [''a'', ''b''] (Some [''a'', long_name, ''b'']) (Valid DEFAULT_SETTINGS) True)
       \<lparr>stat_raises := [long_name]\<rparr>"

section \<open>Properties\<close>

subsection \<open>Queue store\<close>

lemma queue_save_queue: "queue (save_queue s) = queue s"
  by (simp add: save_queue_def emit_def)

lemma apply_qop_queue:
  "distinct (queue s) \<Longrightarrow> queue (apply_qop op s) = spec_queue [op] (queue s)"
  by (cases op)
     (auto simp: add_to_queue_def remove_from_queue_def get_next_video_def queue_save_queue
        distinct_remove1_removeAll split: list.splits)

lemma spec_queue_step_distinct: "distinct q \<Longrightarrow> distinct (spec_queue [op] q)"
  by (cases op) (auto simp: distinct_removeAll split: list.splits)

lemma spec_queue_Cons: "spec_queue (op # ops) q = spec_queue ops (spec_queue [op] q)"
  by (cases op) simp_all

lemma run_qops_Cons: "run_qops (op # ops) s = run_qops ops (apply_qop op s)"
  by (simp add: run_qops_def)

lemma run_qops_queue:
  "distinct (queue s) \<Longrightarrow>
   distinct (spec_queue ops (queue s)) \<and> queue (run_qops ops s) = spec_queue ops (queue s)"
proof (induction ops arbitrary: s)
  case Nil
  then show ?case by (simp add: run_qops_def)
next
  case (Cons op ops)
  have q: "queue (apply_qop op s) = spec_queue [op] (queue s)"
    using Cons.prems by (rule apply_qop_queue)
  have d: "distinct (queue (apply_qop op s))"
    unfolding q using Cons.prems by (rule spec_queue_step_distinct)
  from Cons.IH [OF d] show ?case
    unfolding q spec_queue_Cons [of op ops] run_qops_Cons .
qed

text \<open>
  Claim C1. Whatever sequence of enqueue, dequeue and pop-front calls is applied to an
  empty queue, the queue holds no identifier twice, the queue that the status reports is
  the order that the specification gives for the sequence, and enqueueing an identifier
  that is in the queue changes nothing at all (the queue file is not written either).
\<close>

theorem queue_fifo_no_duplicates:
  assumes "queue s0 = []"
  shows "distinct (queue (run_qops ops s0))
       \<and> queue_copy (get_status now (run_qops ops s0)) = spec_queue ops []
       \<and> (v \<in> set (queue (run_qops ops s0)) \<longrightarrow>
            add_to_queue v (run_qops ops s0) = run_qops ops s0)"
proof -
  have "distinct (queue s0)" using assms by simp
  from run_qops_queue [OF this, of ops]
  have q: "queue (run_qops ops s0) = spec_queue ops []"
    and d: "distinct (spec_queue ops [])"
    unfolding assms by simp_all
  have c: "queue_copy (get_status now (run_qops ops s0)) = queue (run_qops ops s0)"
    by (simp add: get_status_def)
  show ?thesis unfolding c unfolding q using d by (simp add: add_to_queue_def q)
qed

theorem queue_fifo_no_duplicates_witness:
  "queue (init [] None Missing True) = []
   \<and> queue_copy (get_status 0
        (run_qops [Enqueue ''a'', Enqueue ''b'', Enqueue ''a'', Dequeue ''a'', Enqueue ''a'']
           (init [] None Missing True))) = [''b'', ''a'']
   \<and> ''a'' \<in> set (queue (run_qops [Enqueue ''a'', Enqueue ''b'', Enqueue ''a'', Dequeue ''a'', Enqueue ''a'']
           (init [] None Missing True)))"
proof -
  have h: "queue (init [] None Missing True) = []" by (simp add: init_def)
  have "spec_queue [Enqueue ''a'', Enqueue ''b'', Enqueue ''a'', Dequeue ''a'', Enqueue ''a''] []
          = [''b'', ''a'']" by simp
  moreover note queue_fifo_no_duplicates [OF h,
      of "[Enqueue ''a'', Enqueue ''b'', Enqueue ''a'', Dequeue ''a'', Enqueue ''a'']" 0 "''a''"]
  moreover have "''a'' \<in> set (queue (run_qops
      [Enqueue ''a'', Enqueue ''b'', Enqueue ''a'', Dequeue ''a'', Enqueue ''a'']
      (init [] None Missing True)))"
    by (simp add: run_qops_def init_def add_to_queue_def remove_from_queue_def save_queue_def)
  ultimately show ?thesis using h by simp
qed

subsection \<open>Status\<close>

text \<open>
  Claim C10. The status reports the viewer count 0 in every state and at every time.
\<close>

theorem status_viewer_count_zero: "viewerCount (get_status now s) = 0"
  by (simp add: get_status_def)

subsection \<open>Start\<close>

text \<open>
  Claim C9. With no session active and an empty queue, the start request fails with
  the error 400 "Queue is empty. Add videos to queue first." and the state after it is
  the state before: no thread is started, no field changes.
\<close>

theorem start_empty_queue_rejected:
  assumes "\<not> is_active s" and "queue s = []"
  shows "start_stream_endpoint s =
           (Inl (HTTPException 400 ''Queue is empty. Add videos to queue first.''), s)"
  using assms by (simp add: start_stream_endpoint_def)

theorem start_empty_queue_rejected_witness:
  "\<not> is_active (init [''a''] None Missing True) \<and> queue (init [''a''] None Missing True) = []
   \<and> fst (start_stream_endpoint (init [''a''] None Missing True)) =
         Inl (HTTPException 400 ''Queue is empty. Add videos to queue first.'')
   \<and> threads (snd (start_stream_endpoint (init [''a''] None Missing True))) = []
   \<and> \<not> is_active (snd (start_stream_endpoint (init [''a''] None Missing True)))"
proof -
  have a: "\<not> is_active (init [''a''] None Missing True)" by (simp add: init_def)
  have q: "queue (init [''a''] None Missing True) = []" by (simp add: init_def)
  have t: "threads (init [''a''] None Missing True) = []" by (simp add: init_def)
  show ?thesis using a q t start_empty_queue_rejected [OF a q] by simp
qed

subsection \<open>Evaluation of the example states\<close>

lemmas eval_defs = run_def init_def add_to_queue_def save_queue_def remove_from_queue_def
  get_next_video_def start_stream_endpoint_def start_stream_def load_settings_def
  loop_step_def emit_def build_cmd_def bind_exn_def lookup_def py_times2_def py_str_def
  popen_def finally_stream_def reset_session_def proc_state_def DEFAULT_SETTINGS_def
  stop_stream_endpoint_def stop_stream_def skip_video_def skip_current_def terminate_wait_def
  kill_def proc_exits_def live_loops_def Let_def show_int_def


lemma demo_playing_fields:
  "queue demo_playing = [''b'', ''c'']"
  "current_video_id demo_playing = Some ''a''"
  "is_active demo_playing"
  "process demo_playing = Some 0"
  "procs demo_playing = [Running]"
  "map pc (threads demo_playing) = [L_blocked 0]"
  "start_time demo_playing = Some 1000"
  "\<not> should_stop demo_playing"
  "present demo_playing = [''a'', ''b'', ''c'']"
  "path_name demo_playing ''b'' = ''b''"
  "settings_file demo_playing = Valid DEFAULT_SETTINGS"
  by (simp_all add: demo_playing_def demo_idle_def eval_defs)

lemma demo_between_videos_fields:
  "queue demo_between_videos = [''c'']"
  "current_video_id demo_between_videos = None"
  "is_active demo_between_videos"
  "process demo_between_videos = None"
  "procs demo_between_videos = [Exited 0]"
  "map pc (threads demo_between_videos) = [L_exists ''b'']"
  "\<not> should_stop demo_between_videos"
  by (simp_all add: demo_between_videos_def demo_playing_def demo_idle_def eval_defs)

lemma long_name_neq: "long_name \<noteq> []" "long_name \<noteq> ''a''" "long_name \<noteq> ''b''"
proof -
  have l: "length long_name = 256" by (simp add: long_name_def)
  show "long_name \<noteq> []" using l by auto
  show "long_name \<noteq> ''a''"
  proof
    assume "long_name = ''a''"
    then have "length long_name = length ''a''" by (rule arg_cong)
    with l show False by simp
  qed
  show "long_name \<noteq> ''b''"
  proof
    assume "long_name = ''b''"
    then have "length long_name = length ''b''" by (rule arg_cong)
    with l show False by simp
  qed
qed

subsection \<open>Stop\<close>

lemma fst_load_settings: "settings_loadable s \<Longrightarrow> \<exists>st. fst (load_settings s) = Inr st"
  by (auto simp: settings_loadable_def load_settings_def load_default_def save_settings_def emit_def
      split: file_state.splits)

lemma load_settings_fields:
  "is_active (snd (load_settings s)) = is_active s"
  "threads (snd (load_settings s)) = threads s"
  "queue (snd (load_settings s)) = queue s"
  by (auto simp: load_settings_def load_default_def save_settings_def emit_def
      split: file_state.splits)

lemma start_accepted:
  assumes "\<not> is_active s" "queue s \<noteq> []" "settings_loadable s"
  shows "fst (start_stream_endpoint s) = Inr ''Stream started successfully''
       \<and> length (threads (snd (start_stream_endpoint s))) = Suc (length (threads s))
       \<and> live_loops (snd (start_stream_endpoint s)) = Suc (live_loops s)"
proof -
  obtain st where st: "fst (load_settings s) = Inr st" using fst_load_settings [OF assms(3)] by blast
  then obtain s1 where l: "load_settings s = (Inr st, s1)" by (cases "load_settings s") simp
  then have "s1 = snd (load_settings s)" by simp
  then have f: "\<not> is_active s1" "threads s1 = threads s"
    using assms(1) load_settings_fields by simp_all
  show ?thesis using assms(1,2) l f
    by (simp add: start_stream_endpoint_def start_stream_def live_loops_def)
qed

lemma stop_stream_ok:
  "stop_stream tr kr s = (None, s1) \<Longrightarrow>
     \<not> is_active s1 \<and> process s1 = None \<and> current_video_id s1 = None \<and> start_time s1 = None
     \<and> queue s1 = queue s \<and> should_stop s1"
  by (auto simp: stop_stream_def Let_def reset_session_def terminate_wait_def kill_def emit_def
        split: option.splits pstate.splits term_resp.splits kill_resp.splits exn.splits if_splits prod.splits)

text \<open>
  The state in which a successful stop request leaves the manager, taken at the moment
  the request returns.
\<close>

lemma stop_return_state:
  assumes "stop_stream_endpoint tr kr s = (Inr msg, s1)"
  shows "\<not> isActive (get_status now s1) \<and> process s1 = None
       \<and> current_video_id s1 = None \<and> start_time s1 = None \<and> should_stop s1
       \<and> (queue s1 \<noteq> [] \<and> settings_loadable s1 \<longrightarrow>
            fst (start_stream_endpoint s1) = Inr ''Stream started successfully''
            \<and> live_loops (snd (start_stream_endpoint s1)) = Suc (live_loops s1))"
proof -
  from assms have "stop_stream tr kr s = (None, s1)"
    by (auto simp: stop_stream_endpoint_def split: if_splits prod.splits option.splits)
  from stop_stream_ok [OF this] have i: "\<not> is_active s1" and p: "process s1 = None"
    and c: "current_video_id s1 = None" "start_time s1 = None" "should_stop s1" by simp_all
  have "\<not> isActive (get_status now s1)" using i by (simp add: get_status_def)
  then show ?thesis using p c start_accepted [OF i] by blast
qed

lemma stop_rejected_when_idle:
  assumes "\<not> is_active s"
  shows "stop_stream_endpoint tr kr s = (Inl (HTTPException 400 ''No active stream to stop''), s)"
  using assms by (simp add: stop_stream_endpoint_def)

text \<open>
  A stop request while a video plays, obeyed by the process, and a start request right
  after it: both succeed. The start clears \<open>should_stop\<close> before the old loop has
  looked at it, so the old loop goes on beside the new one, each with a process.
\<close>

lemma restart_after_stop_keeps_old_loop:
  "fst (stop_stream_endpoint (Exits_within 255) Kill_ok demo_playing)
        = Inr ''Stream stopped successfully''
   \<and> fst (start_stream_endpoint (run [Stop (Exits_within 255) Kill_ok] demo_playing))
        = Inr ''Stream started successfully''
   \<and> live_loops (run
       [Stop (Exits_within 255) Kill_ok, Start,
        Loop 0 Spawn_ok 1010, Loop 0 Spawn_ok 1010, Loop 0 Spawn_ok 1010,
        Loop 0 Spawn_ok 1010, Loop 0 Spawn_ok 1010, Loop 0 Spawn_ok 1010,
        Loop 1 Spawn_ok 1011, Loop 1 Spawn_ok 1011, Loop 1 Spawn_ok 1011,
        Loop 1 Spawn_ok 1011, Loop 1 Spawn_ok 1011, Loop 1 Spawn_ok 1011] demo_playing) = 2
   \<and> procs (run
       [Stop (Exits_within 255) Kill_ok, Start,
        Loop 0 Spawn_ok 1010, Loop 0 Spawn_ok 1010, Loop 0 Spawn_ok 1010,
        Loop 0 Spawn_ok 1010, Loop 0 Spawn_ok 1010, Loop 0 Spawn_ok 1010,
        Loop 1 Spawn_ok 1011, Loop 1 Spawn_ok 1011, Loop 1 Spawn_ok 1011,
        Loop 1 Spawn_ok 1011, Loop 1 Spawn_ok 1011, Loop 1 Spawn_ok 1011] demo_playing)
        = [Exited 255, Running, Running]"
  by (simp add: demo_playing_def demo_idle_def eval_defs)

text \<open>
  Claim C4. The claim holds for the state at the moment the stop request returns
  (\<open>stop_return_state\<close>), and a stop request with no session active is rejected and
  changes nothing (\<open>stop_rejected_when_idle\<close>). It does not hold for the session:
  the loop tests \<open>should_stop\<close> only at the head of its \<open>while\<close>. Here the first
  video has ended and the loop has passed that test and popped the second video when the
  stop request arrives. The request succeeds and the status is idle; three steps of the
  loop later the status is active again, the second video is streaming in a new process,
  and a start request is refused because a stream is already active.
\<close>

theorem stop_does_not_end_session:
  "is_active demo_between_videos
   \<and> fst (stop_stream_endpoint Times_out Kill_ok demo_between_videos)
        = Inr ''Stream stopped successfully''
   \<and> \<not> isActive (get_status 1006 (run [Stop Times_out Kill_ok] demo_between_videos))
   \<and> isActive (get_status 1010
        (run [Stop Times_out Kill_ok, Loop 0 Spawn_ok 1007, Loop 0 Spawn_ok 1007,
              Loop 0 Spawn_ok 1007] demo_between_videos))
   \<and> current_video_id
        (run [Stop Times_out Kill_ok, Loop 0 Spawn_ok 1007, Loop 0 Spawn_ok 1007,
              Loop 0 Spawn_ok 1007] demo_between_videos) = Some ''b''
   \<and> process
        (run [Stop Times_out Kill_ok, Loop 0 Spawn_ok 1007, Loop 0 Spawn_ok 1007,
              Loop 0 Spawn_ok 1007] demo_between_videos) = Some 1
   \<and> procs
        (run [Stop Times_out Kill_ok, Loop 0 Spawn_ok 1007, Loop 0 Spawn_ok 1007,
              Loop 0 Spawn_ok 1007] demo_between_videos) = [Exited 0, Running]
   \<and> fst (start_stream_endpoint
        (run [Stop Times_out Kill_ok, Loop 0 Spawn_ok 1007, Loop 0 Spawn_ok 1007,
              Loop 0 Spawn_ok 1007] demo_between_videos))
        = Inl (HTTPException 400 ''Stream is already active'')"
  by (simp add: demo_between_videos_def demo_playing_def demo_idle_def eval_defs get_status_def)

subsection \<open>Loop exit and status\<close>

lemma thread_step_session_inv:
  "0 < now \<Longrightarrow> session_inv s \<Longrightarrow> session_inv (snd (thread_step r now st p s))"
  by (cases p)
     (auto simp: session_inv_def get_next_video_def save_queue_def emit_def popen_def Let_def
        finally_stream_def reset_session_def
        split: option.splits list.splits sum.splits popen_resp.splits if_splits prod.splits)

lemma step_session_inv:
  "clock_positive a \<Longrightarrow> session_inv s \<Longrightarrow> session_inv (step a s)"
proof (cases a)
  case (Loop i r now)
  assume c: "clock_positive a" and inv: "session_inv s"
  from c Loop have n: "0 < now" by (simp add: clock_positive_def)
  show ?thesis
  proof (cases "i < length (threads s)")
    case True
    obtain p' s' where ts: "thread_step r now (thread_settings (threads s ! i)) (pc (threads s ! i)) s = (p', s')"
      by (cases "thread_step r now (thread_settings (threads s ! i)) (pc (threads s ! i)) s")
    from thread_step_session_inv [OF n inv, of r "thread_settings (threads s ! i)" "pc (threads s ! i)"] ts
    have "session_inv s'" by simp
    then show ?thesis using Loop True ts
      by (auto simp: loop_step_def session_inv_def split: option.splits)
  next
    case False
    then show ?thesis using Loop inv by (simp add: loop_step_def)
  qed
qed (auto simp: session_inv_def add_to_queue_def remove_from_queue_def save_queue_def emit_def
       start_stream_endpoint_def start_stream_def load_settings_def load_default_def save_settings_def
       stop_stream_endpoint_def stop_stream_def skip_video_def skip_current_def terminate_wait_def
       kill_def proc_exits_def reset_session_def Let_def
       split: option.splits file_state.splits pstate.splits term_resp.splits kill_resp.splits exn.splits if_splits prod.splits)

lemma run_session_inv:
  "list_all clock_positive as \<Longrightarrow> session_inv s \<Longrightarrow> session_inv (run as s)"
  unfolding run_def
  by (induction as arbitrary: s) (simp_all add: step_session_inv)

lemma init_session_inv: "session_inv (init vs qf sf ok)"
  by (simp add: session_inv_def init_def)

text \<open>
  When \<open>_stream_loop\<close> returns, the session has been reset and the status is idle.
\<close>

lemma return_resets_session:
  assumes "p \<noteq> L_done" and "thread_step r now st p s = (L_done, s')"
  shows "\<not> is_active s' \<and> current_video_id s' = None \<and> start_time s' = None
       \<and> status (get_status t s') = ''idle'' \<and> uptime (get_status t s') = 0"
proof -
  from assms have "p = L_cleanup"
    by (cases p)
       (auto simp: get_next_video_def popen_def Let_def
          split: option.splits list.splits sum.splits popen_resp.splits if_splits prod.splits)
  with assms have s': "s' = reset_session s" by simp
  show ?thesis unfolding s' by (simp add: reset_session_def get_status_def)
qed

text \<open>
  While the session is active the status is "streaming", and in every state reached
  from the initial state, with a clock that reads positive times, an active session has
  a start time and the uptime reported is the truncation of now minus that start time.
\<close>

lemma active_status_and_uptime:
  "(is_active s \<longrightarrow> status (get_status t s) = ''streaming'')
   \<and> (list_all clock_positive as \<and> is_active (run as (init vs qf sf ok)) \<longrightarrow>
        (\<exists>t0. start_time (run as (init vs qf sf ok)) = Some t0
            \<and> uptime (get_status t (run as (init vs qf sf ok))) = py_int (t - t0)))"
proof (intro conjI impI)
  assume "is_active s"
  then show "status (get_status t s) = ''streaming''" by (simp add: get_status_def)
next
  assume a: "list_all clock_positive as \<and> is_active (run as (init vs qf sf ok))"
  then have "session_inv (run as (init vs qf sf ok))"
    using run_session_inv init_session_inv by blast
  with a show "\<exists>t0. start_time (run as (init vs qf sf ok)) = Some t0
            \<and> uptime (get_status t (run as (init vs qf sf ok))) = py_int (t - t0)"
    by (auto simp: session_inv_def get_status_def split: option.splits)
qed

text \<open>
  Claim C5. The claim holds when \<open>_stream_loop\<close> returns (\<open>return_resets_session\<close>)
  and for the status of an active session (\<open>active_status_and_uptime\<close>). It does not
  hold when the loop is left by an exception: the locked block after the loop is not in
  a \<open>finally\<close>. Here the first video has played, the next identifier in the queue is
  too long to be a file name, and \<open>exists()\<close> raises. The thread has ended, no loop is
  left, and the session is still marked active with its start time: the status says
  "streaming" with a growing uptime, and a start request is refused.
\<close>

theorem crash_skips_cleanup:
  "map pc (threads (run
       [Start, Loop 0 Spawn_ok 1000, Loop 0 Spawn_ok 1000, Loop 0 Spawn_ok 1000,
        Loop 0 Spawn_ok 1000, Loop 0 Spawn_ok 1000, Loop 0 Spawn_ok 1000, Proc_exits 0 0,
        Loop 0 Spawn_ok 1005, Loop 0 Spawn_ok 1005, Loop 0 Spawn_ok 1005,
        Loop 0 Spawn_ok 1005] demo_long_queued)) = [L_crashed OSError]
   \<and> live_loops (run
       [Start, Loop 0 Spawn_ok 1000, Loop 0 Spawn_ok 1000, Loop 0 Spawn_ok 1000,
        Loop 0 Spawn_ok 1000, Loop 0 Spawn_ok 1000, Loop 0 Spawn_ok 1000, Proc_exits 0 0,
        Loop 0 Spawn_ok 1005, Loop 0 Spawn_ok 1005, Loop 0 Spawn_ok 1005,
        Loop 0 Spawn_ok 1005] demo_long_queued) = 0
   \<and> is_active (run
       [Start, Loop 0 Spawn_ok 1000, Loop 0 Spawn_ok 1000, Loop 0 Spawn_ok 1000,
        Loop 0 Spawn_ok 1000, Loop 0 Spawn_ok 1000, Loop 0 Spawn_ok 1000, Proc_exits 0 0,
        Loop 0 Spawn_ok 1005, Loop 0 Spawn_ok 1005, Loop 0 Spawn_ok 1005,
        Loop 0 Spawn_ok 1005] demo_long_queued)
   \<and> start_time (run
       [Start, Loop 0 Spawn_ok 1000, Loop 0 Spawn_ok 1000, Loop 0 Spawn_ok 1000,
        Loop 0 Spawn_ok 1000, Loop 0 Spawn_ok 1000, Loop 0 Spawn_ok 1000, Proc_exits 0 0,
        Loop 0 Spawn_ok 1005, Loop 0 Spawn_ok 1005, Loop 0 Spawn_ok 1005,
        Loop 0 Spawn_ok 1005] demo_long_queued) = Some 1000
   \<and> status (get_status 5000 (run
       [Start, Loop 0 Spawn_ok 1000, Loop 0 Spawn_ok 1000, Loop 0 Spawn_ok 1000,
        Loop 0 Spawn_ok 1000, Loop 0 Spawn_ok 1000, Loop 0 Spawn_ok 1000, Proc_exits 0 0,
        Loop 0 Spawn_ok 1005, Loop 0 Spawn_ok 1005, Loop 0 Spawn_ok 1005,
        Loop 0 Spawn_ok 1005] demo_long_queued)) = ''streaming''
   \<and> uptime (get_status 5000 (run
       [Start, Loop 0 Spawn_ok 1000, Loop 0 Spawn_ok 1000, Loop 0 Spawn_ok 1000,
        Loop 0 Spawn_ok 1000, Loop 0 Spawn_ok 1000, Loop 0 Spawn_ok 1000, Proc_exits 0 0,
        Loop 0 Spawn_ok 1005, Loop 0 Spawn_ok 1005, Loop 0 Spawn_ok 1005,
        Loop 0 Spawn_ok 1005] demo_long_queued)) = 4000
   \<and> fst (start_stream_endpoint (run
       [Start, Loop 0 Spawn_ok 1000, Loop 0 Spawn_ok 1000, Loop 0 Spawn_ok 1000,
        Loop 0 Spawn_ok 1000, Loop 0 Spawn_ok 1000, Loop 0 Spawn_ok 1000, Proc_exits 0 0,
        Loop 0 Spawn_ok 1005, Loop 0 Spawn_ok 1005, Loop 0 Spawn_ok 1005,
        Loop 0 Spawn_ok 1005] demo_long_queued))
        = Inl (HTTPException 400 ''Stream is already active'')"
  by (simp add: demo_long_queued_def eval_defs get_status_def py_int_def long_name_neq)

subsection \<open>Missing files\<close>

text \<open>
  When the head of the queue is a (non-empty) identifier for which the existence test
  answers false, three steps of the loop (the test of the stop flag, the pop, the test
  of existence) print "not found" and bring the loop back to its head with the entry
  removed and the session fields as they were: the loop has not ended. If the next entry
  exists and the settings give a command line, the loop goes on to it: after four more
  steps the session is active with that entry as the current video, and the next step
  calls Popen for it.
\<close>

lemma absent_file_is_skipped:
  assumes "queue s = a # rest" and "a \<noteq> []" and "a \<notin> set (present s)"
    and "a \<notin> set (stat_raises s)" and "\<not> should_stop s"
  shows "fst (thread_run [(r1, t1), (r2, t2), (r3, t3)] st L_while s) = L_while
       \<and> queue (snd (thread_run [(r1, t1), (r2, t2), (r3, t3)] st L_while s)) = rest
       \<and> is_active (snd (thread_run [(r1, t1), (r2, t2), (r3, t3)] st L_while s)) = is_active s
       \<and> start_time (snd (thread_run [(r1, t1), (r2, t2), (r3, t3)] st L_while s)) = start_time s
       \<and> should_stop (snd (thread_run [(r1, t1), (r2, t2), (r3, t3)] st L_while s)) = should_stop s
       \<and> last (events (snd (thread_run [(r1, t1), (r2, t2), (r3, t3)] st L_while s))) = Print_not_found a
       \<and> (rest = b # rest' \<and> b \<noteq> [] \<and> b \<in> set (present s)
            \<and> build_cmd st (path_str s b) = Inr cmd \<longrightarrow>
          fst (thread_run [(r1, t1), (r2, t2), (r3, t3), (r4, t4), (r5, t5), (r6, t6), (r7, t7)]
                 st L_while s) = L_popen cmd
          \<and> is_active (snd (thread_run
                 [(r1, t1), (r2, t2), (r3, t3), (r4, t4), (r5, t5), (r6, t6), (r7, t7)]
                 st L_while s))
          \<and> current_video_id (snd (thread_run
                 [(r1, t1), (r2, t2), (r3, t3), (r4, t4), (r5, t5), (r6, t6), (r7, t7)]
                 st L_while s)) = Some (path_name s b)
          \<and> queue (snd (thread_run
                 [(r1, t1), (r2, t2), (r3, t3), (r4, t4), (r5, t5), (r6, t6), (r7, t7)]
                 st L_while s)) = rest'
          \<and> Call_popen cmd \<in> set (events (snd (thread_run
                 [(r1, t1), (r2, t2), (r3, t3), (r4, t4), (r5, t5), (r6, t6), (r7, t7), (r8, t8)]
                 st L_while s))))"
  using assms
  by (simp add: get_next_video_def save_queue_def emit_def popen_def Let_def finally_stream_def
        split: popen_resp.splits)

text \<open>The queue \<open>a\<close>, \<open>b\<close> with the file of \<open>a\<close> gone.\<close>

lemma missing_a_then_b:
  "queue demo_missing = [''a'', ''b''] \<and> ''a'' \<notin> set (present demo_missing)
   \<and> ''b'' \<in> set (present demo_missing) \<and> \<not> should_stop demo_missing
   \<and> fst (thread_run [(Spawn_ok, 1000), (Spawn_ok, 1000), (Spawn_ok, 1000)]
            DEFAULT_SETTINGS L_while demo_missing) = L_while
   \<and> queue (snd (thread_run [(Spawn_ok, 1000), (Spawn_ok, 1000), (Spawn_ok, 1000)]
            DEFAULT_SETTINGS L_while demo_missing)) = [''b'']
   \<and> is_active (snd (thread_run
          [(Spawn_ok, 1000), (Spawn_ok, 1000), (Spawn_ok, 1000), (Spawn_ok, 1000),
           (Spawn_ok, 1000), (Spawn_ok, 1000), (Spawn_ok, 1000)]
          DEFAULT_SETTINGS L_while demo_missing))
   \<and> current_video_id (snd (thread_run
          [(Spawn_ok, 1000), (Spawn_ok, 1000), (Spawn_ok, 1000), (Spawn_ok, 1000),
           (Spawn_ok, 1000), (Spawn_ok, 1000), (Spawn_ok, 1000)]
          DEFAULT_SETTINGS L_while demo_missing)) = Some ''b''"
proof -
  have q: "queue demo_missing = ''a'' # [''b'']" by (simp add: demo_missing_def init_def)
  have n: "''a'' \<noteq> []" by simp
  have m: "''a'' \<notin> set (present demo_missing)" by (simp add: demo_missing_def init_def)
  have p: "''b'' \<in> set (present demo_missing)" by (simp add: demo_missing_def init_def)
  have u: "''a'' \<notin> set (stat_raises demo_missing)" by (simp add: demo_missing_def init_def)
  have st: "\<not> should_stop demo_missing" by (simp add: demo_missing_def init_def)
  have nm: "path_name demo_missing ''b'' = ''b''" by (simp add: demo_missing_def init_def)
  have "\<exists>cmd. build_cmd DEFAULT_SETTINGS (path_str demo_missing ''b'') = Inr cmd"
    by (simp add: build_cmd_def bind_exn_def lookup_def py_times2_def DEFAULT_SETTINGS_def)
  then obtain cmd where c: "build_cmd DEFAULT_SETTINGS (path_str demo_missing ''b'') = Inr cmd"
    by blast
  from absent_file_is_skipped [OF q n m u st, where st = DEFAULT_SETTINGS and b = "''b''"
      and rest' = "[]" and cmd = cmd
      and ?r1.0 = Spawn_ok and ?r2.0 = Spawn_ok and ?r3.0 = Spawn_ok and ?r4.0 = Spawn_ok
      and ?r5.0 = Spawn_ok and ?r6.0 = Spawn_ok and ?r7.0 = Spawn_ok and ?r8.0 = Spawn_ok
      and ?t1.0 = 1000 and ?t2.0 = 1000 and ?t3.0 = 1000 and ?t4.0 = 1000
      and ?t5.0 = 1000 and ?t6.0 = 1000 and ?t7.0 = 1000 and ?t8.0 = 1000]
  show ?thesis using q m p st c nm by simp
qed

text \<open>
  Claim C7. The claim holds for an identifier for which the existence test answers
  false (\<open>absent_file_is_skipped\<close>, and \<open>missing_a_then_b\<close> for the queue of the
  claim). It does not hold for every identifier without a file: for the 256-byte
  identifier, which no file can have, \<open>exists()\<close> raises outside every \<open>try\<close>. The
  loop thread ends, "not found" is not printed, the next entry \<open>b\<close>, whose file
  exists, stays in the queue and is never attempted, however many steps the thread is
  given.
\<close>

theorem unreadable_entry_ends_loop:
  "queue demo_long_head = [long_name, ''b'']
   \<and> long_name \<notin> set (present demo_long_head)
   \<and> ''b'' \<in> set (present demo_long_head)
   \<and> map pc (threads (run
       [Start, Loop 0 Spawn_ok 1000, Loop 0 Spawn_ok 1000, Loop 0 Spawn_ok 1000] demo_long_head))
        = [L_crashed OSError]
   \<and> events (run
       [Start, Loop 0 Spawn_ok 1000, Loop 0 Spawn_ok 1000, Loop 0 Spawn_ok 1000] demo_long_head)
        = [Thread_exception OSError]
   \<and> queue (run
       [Start, Loop 0 Spawn_ok 1000, Loop 0 Spawn_ok 1000, Loop 0 Spawn_ok 1000,
        Loop 0 Spawn_ok 1001, Loop 0 Spawn_ok 1001, Loop 0 Spawn_ok 1001,
        Loop 0 Spawn_ok 1001, Loop 0 Spawn_ok 1001] demo_long_head) = [''b'']
   \<and> events (run
       [Start, Loop 0 Spawn_ok 1000, Loop 0 Spawn_ok 1000, Loop 0 Spawn_ok 1000,
        Loop 0 Spawn_ok 1001, Loop 0 Spawn_ok 1001, Loop 0 Spawn_ok 1001,
        Loop 0 Spawn_ok 1001, Loop 0 Spawn_ok 1001] demo_long_head)
        = [Thread_exception OSError]
   \<and> live_loops (run
       [Start, Loop 0 Spawn_ok 1000, Loop 0 Spawn_ok 1000, Loop 0 Spawn_ok 1000] demo_long_head)
        = 0"
  by (simp add: demo_long_head_def eval_defs long_name_neq)

subsection \<open>Skip\<close>

text \<open>
  Claim C8. While a video is playing (the process \<open>h\<close> is running), with \<open>b\<close> at
  the head of the queue, a skip that ends the process (it exits with a non-zero code
  within the timeout, or it is killed after the timeout) returns without an error,
  changes neither the queue nor the queue file nor the session fields, and changes the
  state of the process \<open>h\<close> only. The loop, blocked on \<open>h\<close>, then prints the error
  of the process and goes on: seven steps later \<open>b\<close> is the current video and the queue
  is what followed \<open>b\<close>. The skipped video is not put back.
\<close>

theorem skip_advances_without_requeue:
  assumes "process s = Some h" and "proc_state s h = Some Running"
    and "queue s = b # rest" and "b \<noteq> []" and "b \<in> set (present s)"
    and "\<not> should_stop s"
    and "build_cmd st (path_str s b) = Inr cmd"
    and "tr = Exits_within c \<and> c \<noteq> 0 \<or> tr = Times_out \<and> kr = Kill_ok"
    and "s1 = snd (skip_current tr kr s)"
    and "s2 = snd (thread_run [(r1, t1), (r2, t2), (r3, t3), (r4, t4), (r5, t5), (r6, t6), (r7, t7)]
                     st (L_blocked h) s1)"
  shows "fst (skip_current tr kr s) = None
       \<and> queue s1 = queue s \<and> queue_file s1 = queue_file s
       \<and> current_video_id s1 = current_video_id s \<and> process s1 = process s
       \<and> is_active s1 = is_active s \<and> start_time s1 = start_time s
       \<and> procs s1 = (procs s)[h := Exited (if tr = Times_out then - 9 else c)]
       \<and> fst (thread_run [(r1, t1), (r2, t2), (r3, t3), (r4, t4), (r5, t5), (r6, t6), (r7, t7)]
                     st (L_blocked h) s1) = L_popen cmd
       \<and> queue s2 = rest
       \<and> current_video_id s2 = Some (path_name s b)
       \<and> Print_ffmpeg_error \<in> set (events s2)"
proof -
  from assms(2) have h: "h < length (procs s)" "procs s ! h = Running"
    by (simp_all add: proc_state_def split: if_splits)
  from assms(8) show ?thesis
  proof
    assume "tr = Exits_within c \<and> c \<noteq> 0"
    then show ?thesis using assms(1,3-7) h unfolding assms(9,10)
      by (simp add: skip_current_def terminate_wait_def emit_def proc_state_def
            get_next_video_def save_queue_def finally_stream_def)
  next
    assume "tr = Times_out \<and> kr = Kill_ok"
    then show ?thesis using assms(1,3-7) h unfolding assms(9,10)
      by (simp add: skip_current_def terminate_wait_def kill_def emit_def proc_state_def
            get_next_video_def save_queue_def finally_stream_def)
  qed
qed

theorem skip_advances_without_requeue_witness:
  "process demo_playing = Some 0 \<and> current_video_id demo_playing = Some ''a''
   \<and> queue demo_playing = [''b'', ''c'']
   \<and> fst (skip_current (Exits_within 255) Kill_ok demo_playing) = None
   \<and> queue (snd (skip_current (Exits_within 255) Kill_ok demo_playing)) = [''b'', ''c'']
   \<and> queue (snd (thread_run
          [(Spawn_ok, 1010), (Spawn_ok, 1010), (Spawn_ok, 1010), (Spawn_ok, 1010),
           (Spawn_ok, 1010), (Spawn_ok, 1010), (Spawn_ok, 1010)]
          DEFAULT_SETTINGS (L_blocked 0)
          (snd (skip_current (Exits_within 255) Kill_ok demo_playing)))) = [''c'']
   \<and> current_video_id (snd (thread_run
          [(Spawn_ok, 1010), (Spawn_ok, 1010), (Spawn_ok, 1010), (Spawn_ok, 1010),
           (Spawn_ok, 1010), (Spawn_ok, 1010), (Spawn_ok, 1010)]
          DEFAULT_SETTINGS (L_blocked 0)
          (snd (skip_current (Exits_within 255) Kill_ok demo_playing)))) = Some ''b''"
proof -
  have p: "process demo_playing = Some 0" by (simp add: demo_playing_fields)
  have r: "proc_state demo_playing 0 = Some Running"
    by (simp add: proc_state_def demo_playing_fields)
  have q: "queue demo_playing = ''b'' # [''c'']" by (simp add: demo_playing_fields)
  have n: "''b'' \<noteq> []" by simp
  have e: "''b'' \<in> set (present demo_playing)" by (simp add: demo_playing_fields)
  have st: "\<not> should_stop demo_playing" by (simp add: demo_playing_fields)
  have "\<exists>cmd. build_cmd DEFAULT_SETTINGS (path_str demo_playing ''b'') = Inr cmd"
    by (simp add: build_cmd_def bind_exn_def lookup_def py_times2_def DEFAULT_SETTINGS_def)
  then obtain cmd where c: "build_cmd DEFAULT_SETTINGS (path_str demo_playing ''b'') = Inr cmd"
    by blast
  have t: "Exits_within 255 = Exits_within 255 \<and> (255::int) \<noteq> 0
           \<or> Exits_within 255 = Times_out \<and> Kill_ok = Kill_ok" by simp
  from skip_advances_without_requeue [OF p r q n e st c t refl refl,
      where ?r1.0 = Spawn_ok and ?r2.0 = Spawn_ok and ?r3.0 = Spawn_ok and ?r4.0 = Spawn_ok
      and ?r5.0 = Spawn_ok and ?r6.0 = Spawn_ok and ?r7.0 = Spawn_ok
      and ?t1.0 = 1010 and ?t2.0 = 1010 and ?t3.0 = 1010 and ?t4.0 = 1010
      and ?t5.0 = 1010 and ?t6.0 = 1010 and ?t7.0 = 1010]
  show ?thesis by (simp add: demo_playing_fields)
qed

subsection \<open>Terminate, wait, kill\<close>

lemma terminate_wait_kill_events:
  assumes "process s = Some h" and "proc_state s h = Some Running" and "tr \<noteq> Term_raises"
  shows "events (snd (skip_current tr kr s)) =
           events s @ [Call_terminate h, Call_wait h 5] @ (if tr = Times_out then [Call_kill h] else [])"
    and "events (snd (stop_stream tr kr s)) =
           events s @ [Call_terminate h, Call_wait h 5] @ (if tr = Times_out then [Call_kill h] else [])"
proof -
  from assms(2) have h: "h < length (procs s)" "procs s ! h = Running"
    by (simp_all add: proc_state_def split: if_splits)
  show "events (snd (skip_current tr kr s)) =
           events s @ [Call_terminate h, Call_wait h 5] @ (if tr = Times_out then [Call_kill h] else [])"
    using assms(1,3) h
    by (cases tr; cases kr)
       (simp_all add: skip_current_def terminate_wait_def kill_def proc_state_def emit_def)
  show "events (snd (stop_stream tr kr s)) =
           events s @ [Call_terminate h, Call_wait h 5] @ (if tr = Times_out then [Call_kill h] else [])"
    using assms(1,3) h
    by (cases tr; cases kr)
       (simp_all add: stop_stream_def terminate_wait_def kill_def proc_state_def emit_def
          reset_session_def Let_def)
qed

text \<open>
  Claim C6. The first half holds, as \<open>terminate_wait_kill_events\<close> shows: terminate,
  then a wait of at most 5, then kill exactly when the wait timed out. The second half
  fails in the code: \<open>kill()\<close> is called inside the handler of \<open>TimeoutExpired\<close>, so
  an exception of \<open>kill()\<close> is not caught by \<open>except Exception\<close>. With the first
  video playing, a process that outlives the timeout and a \<open>kill()\<close> that raises:
  \<open>stop_stream\<close> and \<open>skip_current\<close> raise the error, nothing is printed, the
  session is still marked active after the stop, and the request handlers answer 500.
\<close>

theorem kill_error_escapes:
  "fst (stop_stream Times_out Kill_raises demo_playing) = Some OSError
   \<and> fst (stop_stream_endpoint Times_out Kill_raises demo_playing)
        = Inl (HTTPException 500 ''Error stopping stream'')
   \<and> is_active (snd (stop_stream Times_out Kill_raises demo_playing))
   \<and> events (snd (stop_stream Times_out Kill_raises demo_playing))
        = events demo_playing @ [Call_terminate 0, Call_wait 0 5, Call_kill 0]
   \<and> fst (skip_current Times_out Kill_raises demo_playing) = Some OSError
   \<and> fst (skip_video Times_out Kill_raises demo_playing)
        = Inl (HTTPException 500 ''Error skipping video'')
   \<and> events (snd (skip_current Times_out Kill_raises demo_playing))
        = events demo_playing @ [Call_terminate 0, Call_wait 0 5, Call_kill 0]"
  by (simp add: demo_playing_fields stop_stream_def stop_stream_endpoint_def skip_current_def
        skip_video_def terminate_wait_def kill_def proc_state_def emit_def Let_def)

subsection \<open>Failures inside the loop\<close>

text \<open>
  The pause is taken when \<open>_stream_video\<close> itself raises, which it does for settings
  without one of the five keys or with a bitrate that cannot be doubled.
\<close>

lemma settings_error_pauses:
  assumes "build_cmd st (path_str s v) = Inl e"
  shows "thread_run [(r1, t1), (r2, t2)] st (L_stream v) s
           = (L_while, emit (Sleep 1) (emit (Print_error_streaming v e) s))"
  using assms by simp

text \<open>
  Claim C2. The pause is not taken after a spawn failure. Popen fails for every video
  here; the exception is printed by the handler inside \<open>_stream_video\<close>, which raises
  nothing, so the handler of the loop with its \<open>time.sleep(1)\<close> is not reached: after
  ten steps the loop is at the second video and no sleep has happened.
\<close>

theorem spawn_failure_no_pause:
  "Sleep 1 \<notin> set (events (run
       [Start, Loop 0 Spawn_fails 1000, Loop 0 Spawn_fails 1000, Loop 0 Spawn_fails 1000,
        Loop 0 Spawn_fails 1000, Loop 0 Spawn_fails 1000, Loop 0 Spawn_fails 1001,
        Loop 0 Spawn_fails 1001, Loop 0 Spawn_fails 1001, Loop 0 Spawn_fails 1001] demo_idle))
   \<and> Print_exception_during_streaming OSError \<in> set (events (run
       [Start, Loop 0 Spawn_fails 1000, Loop 0 Spawn_fails 1000, Loop 0 Spawn_fails 1000,
        Loop 0 Spawn_fails 1000, Loop 0 Spawn_fails 1000, Loop 0 Spawn_fails 1001,
        Loop 0 Spawn_fails 1001, Loop 0 Spawn_fails 1001, Loop 0 Spawn_fails 1001] demo_idle))
   \<and> current_video_id (run
       [Start, Loop 0 Spawn_fails 1000, Loop 0 Spawn_fails 1000, Loop 0 Spawn_fails 1000,
        Loop 0 Spawn_fails 1000, Loop 0 Spawn_fails 1000, Loop 0 Spawn_fails 1001,
        Loop 0 Spawn_fails 1001, Loop 0 Spawn_fails 1001, Loop 0 Spawn_fails 1001] demo_idle)
       = Some ''b''"
  by (simp add: demo_idle_def eval_defs)

subsection \<open>Two loops\<close>

lemma start_rejected_when_active:
  assumes "is_active s"
  shows "start_stream_endpoint s = (Inl (HTTPException 400 ''Stream is already active''), s)"
  using assms by (simp add: start_stream_endpoint_def)

text \<open>
  Claim C3. A start request in a state where \<open>is_active\<close> is set is rejected and
  changes nothing, as \<open>start_rejected_when_active\<close> shows. But the test of
  \<open>is_active\<close> in the start request is not a check-and-set: the flag is set by the
  loop thread, in \<open>_stream_video\<close>. A second start request that comes before that
  (right after the first, or after the first loop has popped its video and found the
  file) is accepted, and two loops run.
\<close>

theorem second_start_accepted:
  "fst (start_stream_endpoint (run [Start] demo_idle)) = Inr ''Stream started successfully''
   \<and> live_loops (run [Start, Start] demo_idle) = 2
   \<and> live_loops (run [Start, Loop 0 Spawn_ok 1000, Loop 0 Spawn_ok 1000, Loop 0 Spawn_ok 1000,
                      Start] demo_idle) = 2"
  by (simp add: demo_idle_def eval_defs)

end
